theory Spec2Isabelle
  imports Main
begin

section \<open>The authentication manager of \<^verbatim>\<open>authentication_manager.ts\<close>\<close>

text \<open>
  The class \<^verbatim>\<open>AuthenticationManager\<close> talks to a server through \<^verbatim>\<open>fetch\<close>
  and keeps one token in \<^verbatim>\<open>localStorage\<close>. The embedding makes both explicit:
  \<^item> a \<open>world\<close> holds the storage, the requests handed to \<^verbatim>\<open>fetch\<close> so far and the
    lines written with \<^verbatim>\<open>console.error\<close>; every method takes a world and returns the
    new one;
  \<^item> a \<open>server\<close> says how each request settles, given the requests issued before it, so
    that a server with memory is covered;
  \<^item> a promise that rejects, and a \<^verbatim>\<open>throw\<close>, is the value \<open>Inl e\<close>; a promise that
    resolves with \<open>v\<close> is \<open>Inr v\<close>; each \<^verbatim>\<open>try\<close> block is a function of its own and the
    method applies its \<^verbatim>\<open>catch\<close> handler to it.

  One call runs alone: no other script writes the storage between two of its steps, and
  the storage itself accepts every read, write and removal.
\<close>

subsection \<open>JavaScript values\<close>

text \<open>
  What \<^verbatim>\<open>Response.json()\<close> can resolve with. A number is carried as the text that
  \<^verbatim>\<open>Number.prototype.toString\<close> gives for it; an object as its own properties, one
  entry for each key.
\<close>

datatype json =
    JNull
  | JBool bool
  | JNum string
  | JStr string
  | JArr "json list"
  | JObj "(string \<times> json) list"

datatype js_error =
    Error string
  | TypeError string
  | SyntaxError string
  | DOMException string

text \<open>Array.prototype.join with the separator \<^verbatim>\<open>","\<close>, on elements already converted.\<close>

fun join :: "(js_error + string) list \<Rightarrow> js_error + string" where
  "join [] = Inr []"
| "join [x] = x"
| "join (x # y # ys) =
     (case x of
        Inl e \<Rightarrow> Inl e
      | Inr s \<Rightarrow> (case join (y # ys) of Inl e \<Rightarrow> Inl e | Inr t \<Rightarrow> Inr (s @ '','' @ t)))"

text \<open>
  The conversion of a parsed value to a string, as string concatenation and
  \<^verbatim>\<open>localStorage.setItem\<close> apply it. An array joins its elements, \<^verbatim>\<open>null\<close> elements
  giving the empty string. An object prints as \<^verbatim>\<open>[object Object]\<close> through
  \<^verbatim>\<open>Object.prototype.toString\<close>, unless a property of its own named \<^verbatim>\<open>toString\<close>
  shadows that method: a parsed value is never callable, and the conversion throws.
\<close>

fun ToString :: "json \<Rightarrow> js_error + string" where
  "ToString JNull = Inr ''null''"
| "ToString (JBool b) = Inr (if b then ''true'' else ''false'')"
| "ToString (JNum n) = Inr n"
| "ToString (JStr s) = Inr s"
| "ToString (JArr xs) = join (map (\<lambda>x. if x = JNull then Inr [] else ToString x) xs)"
| "ToString (JObj kvs) =
     (if map_of kvs ''toString'' = None then Inr ''[object Object]''
      else Inl (TypeError ''Cannot convert object to primitive value''))"

text \<open>The same conversion for a binding that may be \<^verbatim>\<open>undefined\<close> (\<open>None\<close>).\<close>

definition ToString_undefined :: "json option \<Rightarrow> js_error + string" where
  "ToString_undefined v = (case v of None \<Rightarrow> Inr ''undefined'' | Some j \<Rightarrow> ToString j)"

text \<open>\<^verbatim>\<open>string | null\<close>, the result of \<^verbatim>\<open>localStorage.getItem\<close>, in a concatenation.\<close>

definition ToString_null :: "string option \<Rightarrow> string" where
  "ToString_null v = (case v of None \<Rightarrow> ''null'' | Some s \<Rightarrow> s)"

text \<open>
  The pattern \<^verbatim>\<open>const { username } = v\<close>: it throws on \<^verbatim>\<open>null\<close>; on an object it
  reads the property, \<^verbatim>\<open>undefined\<close> when the object has none of that name; numbers,
  booleans, strings and arrays have no such property.
\<close>

fun destructure_username :: "json \<Rightarrow> js_error + json option" where
  "destructure_username JNull =
     Inl (TypeError ''Cannot destructure property username of null'')"
| "destructure_username (JObj kvs) = Inr (map_of kvs ''username'')"
| "destructure_username _ = Inr None"

subsection \<open>JSON.stringify on the objects the class builds\<close>

text \<open>
  The class serialises only flat objects whose fields are strings or \<^verbatim>\<open>null\<close>:
  \<^verbatim>\<open>{ token }\<close> and \<^verbatim>\<open>{ username, password }\<close>. A string is quoted, with the quote, the
  backslash and the control characters escaped.
\<close>

definition hex_digit :: "nat \<Rightarrow> char" where
  "hex_digit n = ''0123456789abcdef'' ! (n mod 16)"

definition escape_char :: "char \<Rightarrow> string" where
  "escape_char c =
     (let n = (of_char c :: nat) in
      if n = 0x22 then [char_of (0x5C :: nat), char_of (0x22 :: nat)]
      else if n = 0x5C then [char_of (0x5C :: nat), char_of (0x5C :: nat)]
      else if n = 0x08 then [char_of (0x5C :: nat), CHR ''b'']
      else if n = 0x0C then [char_of (0x5C :: nat), CHR ''f'']
      else if n = 0x0A then [char_of (0x5C :: nat), CHR ''n'']
      else if n = 0x0D then [char_of (0x5C :: nat), CHR ''r'']
      else if n = 0x09 then [char_of (0x5C :: nat), CHR ''t'']
      else if n < 0x20 then
        [char_of (0x5C :: nat), CHR ''u'', CHR ''0'', CHR ''0'', hex_digit (n div 16), hex_digit n]
      else [c])"

definition quote :: "string \<Rightarrow> string" where
  "quote s = [char_of (0x22 :: nat)] @ concat (map escape_char s) @ [char_of (0x22 :: nat)]"

definition stringify_field :: "string \<times> string option \<Rightarrow> string" where
  "stringify_field kv =
     quote (fst kv) @ '':'' @ (case snd kv of None \<Rightarrow> ''null'' | Some s \<Rightarrow> quote s)"

fun commas :: "string list \<Rightarrow> string" where
  "commas [] = []"
| "commas [x] = x"
| "commas (x # y # ys) = x @ '','' @ commas (y # ys)"

definition JSON_stringify :: "(string \<times> string option) list \<Rightarrow> string" where
  "JSON_stringify fields = ''{'' @ commas (map stringify_field fields) @ ''}''"

subsection \<open>Requests, responses, the server and the world\<close>

text \<open>
  The second argument of \<^verbatim>\<open>fetch\<close> is an object of options; a spread
  \<^verbatim>\<open>{ ...a, ...b }\<close> of two such objects is \<open>a ++ b\<close>, the keys of \<open>b\<close> winning.
\<close>

datatype optval =
    OStr string
  | OHeaders "(string \<times> string) list"

type_synonym options = "string \<rightharpoonup> optval"

record request =
  url :: string
  init :: options

text \<open>
  A response is read through \<^verbatim>\<open>ok\<close> and \<^verbatim>\<open>json()\<close> only: it carries its status and
  what reading and parsing its body settles to.
\<close>

record response =
  status :: nat
  json_body :: "js_error + json"

definition ok :: "response \<Rightarrow> bool" where
  "ok r = (200 \<le> status r \<and> status r \<le> 299)"

text \<open>
  \<open>respond h rq\<close> is how the promise of \<^verbatim>\<open>fetch\<close> settles for the request \<open>rq\<close> issued
  after the requests \<open>h\<close>. Two requests in flight together settle in an order the
  server and the network decide: \<open>lastSettlesFirst h\<close> holds when the last request of
  \<open>h\<close> settles before the one issued just before it.
\<close>

record server =
  respond :: "request list \<Rightarrow> request \<Rightarrow> js_error + response"
  lastSettlesFirst :: "request list \<Rightarrow> bool"

record world =
  localStorage :: "string \<rightharpoonup> string"
  sent :: "request list"
  console :: "(string \<times> js_error) list"

definition getItem :: "string \<Rightarrow> world \<Rightarrow> string option" where
  "getItem k w = localStorage w k"

definition setItem :: "string \<Rightarrow> string \<Rightarrow> world \<Rightarrow> world" where
  "setItem k v w = w\<lparr>localStorage := (localStorage w)(k \<mapsto> v)\<rparr>"

definition removeItem :: "string \<Rightarrow> world \<Rightarrow> world" where
  "removeItem k w = w\<lparr>localStorage := (localStorage w)(k := None)\<rparr>"

definition console_error :: "string \<Rightarrow> js_error \<Rightarrow> world \<Rightarrow> world" where
  "console_error msg e w = w\<lparr>console := console w @ [(msg, e)]\<rparr>"

definition fetch :: "server \<Rightarrow> string \<Rightarrow> options \<Rightarrow> world \<Rightarrow> (js_error + response) \<times> world" where
  "fetch srv u opts w =
     (let rq = \<lparr>url = u, init = opts\<rparr>
      in (respond srv (sent w) rq, w\<lparr>sent := sent w @ [rq]\<rparr>))"

text \<open>
  \<^verbatim>\<open>Promise.all\<close> on two promises: it resolves with both values when both resolve,
  and rejects with the reason of the promise that rejects first.
\<close>

definition Promise_all2 :: "bool \<Rightarrow> js_error + 'a \<Rightarrow> js_error + 'b \<Rightarrow> js_error + ('a \<times> 'b)" where
  "Promise_all2 second_first p q =
     (case p of
        Inl e1 \<Rightarrow> (case q of Inl e2 \<Rightarrow> Inl (if second_first then e2 else e1) | Inr _ \<Rightarrow> Inl e1)
      | Inr a \<Rightarrow> (case q of Inl e2 \<Rightarrow> Inl e2 | Inr b \<Rightarrow> Inr (a, b)))"

subsection \<open>The class\<close>

record AuthenticationManager =
  baseUrl :: string

definition defaultOptions :: options where
  "defaultOptions =
     [''mode'' \<mapsto> OStr ''cors'',
      ''headers'' \<mapsto> OHeaders [(''Content-Type'', ''application/json'')],
      ''referrerPolicy'' \<mapsto> OStr ''no-referrer'']"

text \<open>The object literal \<^verbatim>\<open>{ method: "POST", body: ... }\<close> of lines 37 to 40, 47 to 50 and 104 to 107.\<close>

definition post :: "string \<Rightarrow> options" where
  "post body = [''method'' \<mapsto> OStr ''POST'', ''body'' \<mapsto> OStr body]"

definition request ::
  "AuthenticationManager \<Rightarrow> server \<Rightarrow> string \<Rightarrow> options \<Rightarrow> world \<Rightarrow> (js_error + response) \<times> world"
where
  "request this srv path opts w = fetch srv (baseUrl this @ path) (defaultOptions ++ opts) w"

definition validateToken ::
  "AuthenticationManager \<Rightarrow> server \<Rightarrow> string option \<Rightarrow> world \<Rightarrow> (js_error + bool) \<times> world"
where
  "validateToken this srv token w =
     (case request this srv ''/validateToken'' (post (JSON_stringify [(''token'', token)])) w of
        (Inl e, w1) \<Rightarrow> (Inl e, w1)
      | (Inr response, w1) \<Rightarrow> (Inr (ok response), w1))"

definition isLoggedIn_try ::
  "AuthenticationManager \<Rightarrow> server \<Rightarrow> world \<Rightarrow> (js_error + bool) \<times> world"
where
  "isLoggedIn_try this srv w =
     (let token = getItem ''auth_token'' w in
      case validateToken this srv token w of
        (Inl e, w1) \<Rightarrow> (Inl e, w1)
      | (Inr valid, w1) \<Rightarrow>
          (Inr valid, if \<not> valid then removeItem ''auth_token'' w1 else w1))"

definition isLoggedIn ::
  "AuthenticationManager \<Rightarrow> server \<Rightarrow> world \<Rightarrow> (js_error + bool) \<times> world"
where
  "isLoggedIn this srv w =
     (case isLoggedIn_try this srv w of
        (Inl error, w1) \<Rightarrow>
          (Inr False,
           removeItem ''auth_token'' (console_error ''Error validating token: '' error w1))
      | (Inr valid, w1) \<Rightarrow> (Inr valid, w1))"

text \<open>
  Lines 62 to 70 of \<^verbatim>\<open>login\<close>, and the same lines 85 to 93 of
  \<^verbatim>\<open>getProfileForLoggedInUser\<close>: both requests are issued, the profile one first,
  then awaited together, then the two bodies are parsed in turn.
\<close>

definition profile_and_roles ::
  "AuthenticationManager \<Rightarrow> server \<Rightarrow> string \<Rightarrow> world \<Rightarrow> (js_error + json) \<times> world"
where
  "profile_and_roles this srv username w =
     (case request this srv (''/profile/'' @ username) Map.empty w of
        (p, w1) \<Rightarrow>
          (case request this srv (''/roles/'' @ username) Map.empty w1 of
             (r, w2) \<Rightarrow>
               (case Promise_all2 (lastSettlesFirst srv (sent w2)) p r of
                  Inl e \<Rightarrow> (Inl e, w2)
                | Inr (profileResponse, rolesResponse) \<Rightarrow>
                    (case json_body profileResponse of
                       Inl e \<Rightarrow> (Inl e, w2)
                     | Inr profile \<Rightarrow>
                         (case json_body rolesResponse of
                            Inl e \<Rightarrow> (Inl e, w2)
                          | Inr roles \<Rightarrow>
                              (Inr (JObj [(''profile'', profile), (''roles'', roles)]), w2))))))"

definition login_try ::
  "AuthenticationManager \<Rightarrow> server \<Rightarrow> string \<Rightarrow> string \<Rightarrow> bool \<Rightarrow> world \<Rightarrow> (js_error + json) \<times> world"
where
  "login_try this srv username password rememberMe w =
     (case request this srv ''/login''
             (post (JSON_stringify [(''username'', Some username), (''password'', Some password)]))
             w of
        (Inl e, w1) \<Rightarrow> (Inl e, w1)
      | (Inr loginResponse, w1) \<Rightarrow>
          if \<not> ok loginResponse then (Inl (Error ''Login failed''), w1)
          else
            (case (if rememberMe then
                     (case json_body loginResponse of
                        Inl e \<Rightarrow> (Inl e, w1)
                      | Inr token \<Rightarrow>
                          (case ToString token of
                             Inl e \<Rightarrow> (Inl e, w1)
                           | Inr s \<Rightarrow> (Inr (), setItem ''auth_token'' s w1)))
                   else (Inr (), w1)) of
               (Inl e, w2) \<Rightarrow> (Inl e, w2)
             | (Inr _, w2) \<Rightarrow> profile_and_roles this srv username w2))"

definition login ::
  "AuthenticationManager \<Rightarrow> server \<Rightarrow> string \<Rightarrow> string \<Rightarrow> bool \<Rightarrow> world \<Rightarrow> (js_error + json) \<times> world"
where
  "login this srv username password rememberMe w =
     (case login_try this srv username password rememberMe w of
        (Inl error, w1) \<Rightarrow> (Inl error, console_error ''Login error: '' error w1)
      | (Inr v, w1) \<Rightarrow> (Inr v, w1))"

definition getProfileForLoggedInUser_try ::
  "AuthenticationManager \<Rightarrow> server \<Rightarrow> world \<Rightarrow> (js_error + json) \<times> world"
where
  "getProfileForLoggedInUser_try this srv w =
     (let token = getItem ''auth_token'' w in
      case request this srv (''/get?token='' @ ToString_null token) Map.empty w of
        (Inl e, w1) \<Rightarrow> (Inl e, w1)
      | (Inr userResponse, w1) \<Rightarrow>
          (case json_body userResponse of
             Inl e \<Rightarrow> (Inl e, w1)
           | Inr v \<Rightarrow>
               (case destructure_username v of
                  Inl e \<Rightarrow> (Inl e, w1)
                | Inr username \<Rightarrow>
                    (case ToString_undefined username of
                       Inl e \<Rightarrow> (Inl e, w1)
                     | Inr s \<Rightarrow> profile_and_roles this srv s w1))))"

definition getProfileForLoggedInUser ::
  "AuthenticationManager \<Rightarrow> server \<Rightarrow> world \<Rightarrow> (js_error + json) \<times> world"
where
  "getProfileForLoggedInUser this srv w =
     (case getProfileForLoggedInUser_try this srv w of
        (Inl error, w1) \<Rightarrow> (Inl error, console_error ''Error fetching profile: '' error w1)
      | (Inr v, w1) \<Rightarrow> (Inr v, w1))"

definition logout_try ::
  "AuthenticationManager \<Rightarrow> server \<Rightarrow> world \<Rightarrow> (js_error + unit) \<times> world"
where
  "logout_try this srv w =
     (let token = getItem ''auth_token'' w in
      case request this srv ''/logout'' (post (JSON_stringify [(''token'', token)])) w of
        (Inl e, w1) \<Rightarrow> (Inl e, w1)
      | (Inr _, w1) \<Rightarrow> (Inr (), removeItem ''auth_token'' w1))"

definition logout ::
  "AuthenticationManager \<Rightarrow> server \<Rightarrow> world \<Rightarrow> (js_error + unit) \<times> world"
where
  "logout this srv w =
     (case logout_try this srv w of
        (Inl error, w1) \<Rightarrow> (Inl error, console_error ''Logout error: '' error w1)
      | (Inr v, w1) \<Rightarrow> (Inr v, w1))"

subsection \<open>The requests the methods issue\<close>

text \<open>
  \<open>issued this path opts\<close> is the request that \<^verbatim>\<open>this.request(path, opts)\<close> hands to
  \<^verbatim>\<open>fetch\<close>; the others name the request of each call site, to state what the server
  answers to it.
\<close>

definition issued :: "AuthenticationManager \<Rightarrow> string \<Rightarrow> options \<Rightarrow> request" where
  "issued this path opts = \<lparr>url = baseUrl this @ path, init = defaultOptions ++ opts\<rparr>"

definition validate_request :: "AuthenticationManager \<Rightarrow> string option \<Rightarrow> request" where
  "validate_request this token =
     issued this ''/validateToken'' (post (JSON_stringify [(''token'', token)]))"

definition login_request :: "AuthenticationManager \<Rightarrow> string \<Rightarrow> string \<Rightarrow> request" where
  "login_request this username password =
     issued this ''/login''
       (post (JSON_stringify [(''username'', Some username), (''password'', Some password)]))"

definition profile_request :: "AuthenticationManager \<Rightarrow> string \<Rightarrow> request" where
  "profile_request this username = issued this (''/profile/'' @ username) Map.empty"

definition roles_request :: "AuthenticationManager \<Rightarrow> string \<Rightarrow> request" where
  "roles_request this username = issued this (''/roles/'' @ username) Map.empty"

definition logout_request :: "AuthenticationManager \<Rightarrow> string option \<Rightarrow> request" where
  "logout_request this token =
     issued this ''/logout'' (post (JSON_stringify [(''token'', token)]))"

subsection \<open>Servers and worlds to run the class on\<close>

definition manager :: AuthenticationManager where
  "manager = \<lparr>baseUrl = ''https://api.test''\<rparr>"

definition fresh_world :: world where
  "fresh_world = \<lparr>localStorage = Map.empty, sent = [], console = []\<rparr>"

definition world_abc :: world where
  "world_abc = \<lparr>localStorage = [''auth_token'' \<mapsto> ''abc''], sent = [], console = []\<rparr>"

text \<open>A server that answers every request with the same status and the body \<^verbatim>\<open>null\<close>.\<close>

definition answer_all :: "nat \<Rightarrow> server" where
  "answer_all n =
     \<lparr>respond = (\<lambda>h rq. Inr \<lparr>status = n, json_body = Inr JNull\<rparr>),
      lastSettlesFirst = (\<lambda>h. False)\<rparr>"

text \<open>No network: every \<^verbatim>\<open>fetch\<close> rejects.\<close>

definition offline :: server where
  "offline =
     \<lparr>respond = (\<lambda>h rq. Inl (TypeError ''Failed to fetch'')),
      lastSettlesFirst = (\<lambda>h. False)\<rparr>"

text \<open>The server of the login scenario: it knows bob, his profile and his roles.\<close>

definition server_bob :: server where
  "server_bob =
     \<lparr>respond = (\<lambda>h rq.
        if url rq = ''https://api.test/login'' then
          Inr \<lparr>status = 200, json_body = Inr (JStr ''tok123'')\<rparr>
        else if url rq = ''https://api.test/get?token=abc'' then
          Inr \<lparr>status = 200, json_body = Inr (JObj [(''username'', JStr ''bob'')])\<rparr>
        else if url rq = ''https://api.test/profile/bob'' then
          Inr \<lparr>status = 200, json_body = Inr (JObj [(''name'', JStr ''Bob'')])\<rparr>
        else if url rq = ''https://api.test/roles/bob'' then
          Inr \<lparr>status = 200, json_body = Inr (JArr [JStr ''admin''])\<rparr>
        else
          Inr \<lparr>status = 404, json_body = Inl (SyntaxError ''Unexpected end of JSON input'')\<rparr>),
      lastSettlesFirst = (\<lambda>h. False)\<rparr>"

text \<open>A server that accepts the login with a body that is not JSON.\<close>

definition server_empty_body :: server where
  "server_empty_body =
     \<lparr>respond = (\<lambda>h rq.
        Inr \<lparr>status = 200, json_body = Inl (SyntaxError ''Unexpected end of JSON input'')\<rparr>),
      lastSettlesFirst = (\<lambda>h. False)\<rparr>"

text \<open>A server that issues the token and then loses the connection on the roles.\<close>

definition server_no_roles :: server where
  "server_no_roles =
     \<lparr>respond = (\<lambda>h rq.
        if url rq = ''https://api.test/login'' then
          Inr \<lparr>status = 200, json_body = Inr (JStr ''tok123'')\<rparr>
        else if url rq = ''https://api.test/profile/bob'' then
          Inr \<lparr>status = 200, json_body = Inr (JObj [(''name'', JStr ''Bob'')])\<rparr>
        else Inl (TypeError ''Failed to fetch'')),
      lastSettlesFirst = (\<lambda>h. False)\<rparr>"

section \<open>Properties\<close>

subsection \<open>What each step does to the world\<close>

lemma request_eq:
  "request this srv path opts w =
     (respond srv (sent w) (issued this path opts),
      w\<lparr>sent := sent w @ [issued this path opts]\<rparr>)"
  by (simp add: request_def fetch_def issued_def Let_def)

lemma validateToken_eq:
  "validateToken this srv token w =
     (case respond srv (sent w) (validate_request this token) of
        Inl e \<Rightarrow> Inl e
      | Inr r \<Rightarrow> Inr (ok r),
      w\<lparr>sent := sent w @ [validate_request this token]\<rparr>)"
  by (simp add: validateToken_def request_eq validate_request_def split: sum.splits)

lemma isLoggedIn_rejected:
  assumes "respond srv (sent w) (validate_request this (getItem ''auth_token'' w)) = Inl e"
  shows "fst (isLoggedIn this srv w) = Inr False"
    and "localStorage (snd (isLoggedIn this srv w)) = (localStorage w)(''auth_token'' := None)"
  using assms
  by (simp_all add: isLoggedIn_def isLoggedIn_try_def validateToken_eq Let_def removeItem_def
      console_error_def)

lemma isLoggedIn_resolved:
  assumes "respond srv (sent w) (validate_request this (getItem ''auth_token'' w)) = Inr r"
  shows "fst (isLoggedIn this srv w) = Inr (ok r)"
    and "localStorage (snd (isLoggedIn this srv w)) =
           (if ok r then localStorage w else (localStorage w)(''auth_token'' := None))"
  using assms
  by (simp_all add: isLoggedIn_def isLoggedIn_try_def validateToken_eq Let_def removeItem_def)

lemma profile_and_roles_sent:
  "sent (snd (profile_and_roles this srv username w)) =
     sent w @ [profile_request this username, roles_request this username]"
  by (simp add: profile_and_roles_def request_eq profile_request_def roles_request_def
      split: sum.splits prod.splits)

lemma storage_profile_and_roles:
  "localStorage (snd (profile_and_roles this srv username w)) = localStorage w"
  by (simp add: profile_and_roles_def request_eq split: sum.splits prod.splits)

lemma profile_and_roles_resolves:
  assumes "respond srv (sent w) (profile_request this username) = Inr profileResponse"
    and "respond srv (sent w @ [profile_request this username]) (roles_request this username) =
           Inr rolesResponse"
    and "json_body profileResponse = Inr profile"
    and "json_body rolesResponse = Inr roles"
  shows "fst (profile_and_roles this srv username w) =
           Inr (JObj [(''profile'', profile), (''roles'', roles)])"
  using assms
  by (simp add: profile_and_roles_def request_eq profile_request_def roles_request_def
      Promise_all2_def)

lemma profile_and_roles_resolved:
  assumes "fst (profile_and_roles this srv username w) = Inr result"
  shows "\<exists>profileResponse rolesResponse profile roles.
           respond srv (sent w) (profile_request this username) = Inr profileResponse \<and>
           respond srv (sent w @ [profile_request this username]) (roles_request this username) =
             Inr rolesResponse \<and>
           json_body profileResponse = Inr profile \<and>
           json_body rolesResponse = Inr roles \<and>
           result = JObj [(''profile'', profile), (''roles'', roles)]"
  using assms
  by (auto simp: profile_and_roles_def request_eq profile_request_def roles_request_def
      Promise_all2_def split: sum.splits prod.splits if_splits)

lemma fst_login:
  "fst (login this srv username password rememberMe w) =
     fst (login_try this srv username password rememberMe w)"
  by (simp add: login_def split: prod.splits sum.splits)

lemma storage_login:
  "localStorage (snd (login this srv username password rememberMe w)) =
     localStorage (snd (login_try this srv username password rememberMe w))"
  by (simp add: login_def console_error_def split: prod.splits sum.splits)

lemma login_try_rejected:
  assumes "respond srv (sent w) (login_request this username password) = Inl e"
  shows "login_try this srv username password rememberMe w =
           (Inl e, w\<lparr>sent := sent w @ [login_request this username password]\<rparr>)"
  using assms by (simp add: login_try_def request_eq login_request_def)

lemma login_try_not_ok:
  assumes "respond srv (sent w) (login_request this username password) = Inr r"
    and "\<not> ok r"
  shows "login_try this srv username password rememberMe w =
           (Inl (Error ''Login failed''),
            w\<lparr>sent := sent w @ [login_request this username password]\<rparr>)"
  using assms by (simp add: login_try_def request_eq login_request_def)

lemma login_try_forget:
  assumes "respond srv (sent w) (login_request this username password) = Inr r"
    and "ok r"
  shows "login_try this srv username password False w =
           profile_and_roles this srv username
             (w\<lparr>sent := sent w @ [login_request this username password]\<rparr>)"
  using assms by (simp add: login_try_def request_eq login_request_def)

lemma login_try_bad_body:
  assumes "respond srv (sent w) (login_request this username password) = Inr r"
    and "ok r"
    and "json_body r = Inl e"
  shows "login_try this srv username password True w =
           (Inl e, w\<lparr>sent := sent w @ [login_request this username password]\<rparr>)"
  using assms by (simp add: login_try_def request_eq login_request_def)

lemma login_try_bad_token:
  assumes "respond srv (sent w) (login_request this username password) = Inr r"
    and "ok r"
    and "json_body r = Inr token"
    and "ToString token = Inl e"
  shows "login_try this srv username password True w =
           (Inl e, w\<lparr>sent := sent w @ [login_request this username password]\<rparr>)"
  using assms by (simp add: login_try_def request_eq login_request_def)

lemma login_try_remember:
  assumes "respond srv (sent w) (login_request this username password) = Inr r"
    and "ok r"
    and "json_body r = Inr token"
    and "ToString token = Inr s"
  shows "login_try this srv username password True w =
           profile_and_roles this srv username
             (setItem ''auth_token'' s
               (w\<lparr>sent := sent w @ [login_request this username password]\<rparr>))"
  using assms by (simp add: login_try_def request_eq login_request_def)

lemma storage_getProfileForLoggedInUser_try:
  "localStorage (snd (getProfileForLoggedInUser_try this srv w)) = localStorage w"
  by (simp add: getProfileForLoggedInUser_try_def request_eq storage_profile_and_roles Let_def
      split: sum.splits prod.splits)

lemma logout_eq:
  "logout this srv w =
     (case respond srv (sent w) (logout_request this (getItem ''auth_token'' w)) of
        Inl e \<Rightarrow>
          (Inl e,
           console_error ''Logout error: '' e
             (w\<lparr>sent := sent w @ [logout_request this (getItem ''auth_token'' w)]\<rparr>))
      | Inr r \<Rightarrow>
          (Inr (),
           removeItem ''auth_token''
             (w\<lparr>sent := sent w @ [logout_request this (getItem ''auth_token'' w)]\<rparr>)))"
  by (simp add: logout_def logout_try_def request_eq logout_request_def Let_def
      split: sum.splits)

subsection \<open>The request helper and validateToken\<close>

text \<open>
  Claim C8. For every path and every object of overrides, \<^verbatim>\<open>request\<close> hands exactly one
  request to \<^verbatim>\<open>fetch\<close>: its address is the base address followed by the path; each of
  its options is the caller's when the caller gives that key and the default otherwise,
  the defaults being the CORS mode, the JSON content type header and the no-referrer
  policy and nothing else. It settles as the server settles that request, whatever the
  status of a response, and touches neither the storage nor the console. So
  \<^verbatim>\<open>validateToken\<close> resolves with the truth of "the status of the answer to the POST
  to /validateToken is between 200 and 299", and rejects with the error of the transport
  when the request rejects.
\<close>

theorem request_contract:
  "fst (request this srv path opts w) = respond srv (sent w) (issued this path opts) \<and>
   sent (snd (request this srv path opts w)) = sent w @ [issued this path opts] \<and>
   localStorage (snd (request this srv path opts w)) = localStorage w \<and>
   console (snd (request this srv path opts w)) = console w \<and>
   url (issued this path opts) = baseUrl this @ path \<and>
   (\<forall>k. init (issued this path opts) k =
          (case opts k of Some v \<Rightarrow> Some v | None \<Rightarrow> defaultOptions k)) \<and>
   defaultOptions ''mode'' = Some (OStr ''cors'') \<and>
   defaultOptions ''headers'' = Some (OHeaders [(''Content-Type'', ''application/json'')]) \<and>
   defaultOptions ''referrerPolicy'' = Some (OStr ''no-referrer'') \<and>
   dom defaultOptions = {''mode'', ''headers'', ''referrerPolicy''} \<and>
   validate_request this token =
     issued this ''/validateToken'' (post (JSON_stringify [(''token'', token)])) \<and>
   post (JSON_stringify [(''token'', token)]) ''method'' = Some (OStr ''POST'') \<and>
   (\<forall>r. respond srv (sent w) (validate_request this token) = Inr r \<longrightarrow>
          fst (validateToken this srv token w) = Inr (200 \<le> status r \<and> status r \<le> 299)) \<and>
   (\<forall>e. respond srv (sent w) (validate_request this token) = Inl e \<longrightarrow>
          fst (validateToken this srv token w) = Inl e)"
proof -
  have merge: "\<forall>k. init (issued this path opts) k =
      (case opts k of Some v \<Rightarrow> Some v | None \<Rightarrow> defaultOptions k)"
    by (simp add: issued_def map_add_def split: option.splits)
  have dflt: "dom defaultOptions = {''mode'', ''headers'', ''referrerPolicy''}"
    by (auto simp: defaultOptions_def)
  show ?thesis
    using merge dflt
    by (simp add: request_eq validateToken_eq ok_def validate_request_def)
      (simp add: issued_def defaultOptions_def post_def)
qed

theorem request_contract_witness:
  "fst (request manager (answer_all 401) ''/validateToken'' (post ''{}'') fresh_world) =
     Inr \<lparr>status = 401, json_body = Inr JNull\<rparr> \<and>
   map url (sent (snd (request manager (answer_all 401) ''/validateToken'' (post ''{}'')
      fresh_world))) = [''https://api.test/validateToken''] \<and>
   init (issued manager ''/validateToken'' (post ''{}'')) ''method'' = Some (OStr ''POST'') \<and>
   init (issued manager ''/validateToken'' (post ''{}'')) ''mode'' = Some (OStr ''cors'') \<and>
   fst (validateToken manager (answer_all 401) (Some ''abc'') fresh_world) = Inr False \<and>
   fst (validateToken manager offline (Some ''abc'') fresh_world) =
     Inl (TypeError ''Failed to fetch'')"
  using request_contract [of manager "answer_all 401" "''/validateToken''" "post ''{}''"
      fresh_world "Some ''abc''"]
    request_contract [of manager offline "''/validateToken''" "post ''{}''"
      fresh_world "Some ''abc''"]
  by (simp add: answer_all_def offline_def fresh_world_def manager_def post_def)

subsection \<open>isLoggedIn\<close>

text \<open>
  Claim C2, as stated: whenever the validation endpoint answers with a status outside
  200 to 299, or no token is stored, \<^verbatim>\<open>isLoggedIn\<close> returns false and removes the key
  \<^verbatim>\<open>auth_token\<close>. The second half fails: with no token stored, the request is still
  sent, with the token \<^verbatim>\<open>null\<close>, and a server that answers 200 makes
  \<^verbatim>\<open>isLoggedIn\<close> return true.
\<close>

theorem isLoggedIn_absent_token_counterexample:
  "getItem ''auth_token'' fresh_world = None \<and>
   fst (isLoggedIn manager (answer_all 200) fresh_world) = Inr True \<and>
   fst (isLoggedIn manager (answer_all 200) fresh_world) \<noteq> Inr False"
  by (simp add: isLoggedIn_def isLoggedIn_try_def validateToken_def request_def fetch_def
      getItem_def fresh_world_def answer_all_def ok_def)

text \<open>
  Claim C2, amended: whenever the validation endpoint answers with a status outside
  200 to 299, whether a token is stored or not, \<^verbatim>\<open>isLoggedIn\<close> returns false and
  removes the key \<^verbatim>\<open>auth_token\<close>, leaving every other key as it was. With no token
  stored, the token sent for validation is \<^verbatim>\<open>null\<close>.
\<close>

theorem isLoggedIn_invalid:
  assumes "respond srv (sent w) (validate_request this (getItem ''auth_token'' w)) = Inr r"
    and "\<not> ok r"
  shows "fst (isLoggedIn this srv w) = Inr False \<and>
         localStorage (snd (isLoggedIn this srv w)) = (localStorage w)(''auth_token'' := None) \<and>
         getItem ''auth_token'' (snd (isLoggedIn this srv w)) = None \<and>
         (getItem ''auth_token'' w = None \<longrightarrow>
            last (sent (snd (isLoggedIn this srv w))) =
              issued this ''/validateToken'' (post (JSON_stringify [(''token'', None)])))"
proof -
  have "sent (snd (isLoggedIn this srv w)) =
      sent w @ [validate_request this (getItem ''auth_token'' w)]"
    using assms
    by (simp add: isLoggedIn_def isLoggedIn_try_def validateToken_eq Let_def removeItem_def)
  then show ?thesis
    using assms isLoggedIn_resolved [OF assms(1)]
    by (simp add: getItem_def validate_request_def)
qed

theorem isLoggedIn_invalid_witness:
  "fst (isLoggedIn manager (answer_all 401) world_abc) = Inr False \<and>
   getItem ''auth_token'' (snd (isLoggedIn manager (answer_all 401) world_abc)) = None \<and>
   fst (isLoggedIn manager (answer_all 401) fresh_world) = Inr False \<and>
   getItem ''auth_token'' (snd (isLoggedIn manager (answer_all 401) fresh_world)) = None"
  using isLoggedIn_invalid [of "answer_all 401" world_abc manager
      "\<lparr>status = 401, json_body = Inr JNull\<rparr>"]
    isLoggedIn_invalid [of "answer_all 401" fresh_world manager
      "\<lparr>status = 401, json_body = Inr JNull\<rparr>"]
  by (simp add: answer_all_def ok_def)

text \<open>
  Claim C4. Whenever the validation endpoint answers the stored token with a status
  from 200 to 299, \<^verbatim>\<open>isLoggedIn\<close> returns true and the storage after the call is the
  storage before it.
\<close>

theorem isLoggedIn_valid:
  assumes "respond srv (sent w) (validate_request this (getItem ''auth_token'' w)) = Inr r"
    and "ok r"
  shows "fst (isLoggedIn this srv w) = Inr True \<and>
         localStorage (snd (isLoggedIn this srv w)) = localStorage w"
  using assms isLoggedIn_resolved [OF assms(1)] by simp

theorem isLoggedIn_valid_witness:
  "fst (isLoggedIn manager (answer_all 200) world_abc) = Inr True \<and>
   getItem ''auth_token'' (snd (isLoggedIn manager (answer_all 200) world_abc)) = Some ''abc''"
  using isLoggedIn_valid [of "answer_all 200" world_abc manager
      "\<lparr>status = 200, json_body = Inr JNull\<rparr>"]
  by (simp add: answer_all_def ok_def getItem_def world_abc_def)

text \<open>
  Claim C6. Whatever the server does, \<^verbatim>\<open>isLoggedIn\<close> resolves with a boolean and never
  rejects; and unless the validation request resolves with a status from 200 to 299
  (so when it rejects, and when it resolves with another status), that boolean is false
  and the key \<^verbatim>\<open>auth_token\<close> is removed.
\<close>

theorem isLoggedIn_never_rejects:
  "(\<exists>b. fst (isLoggedIn this srv w) = Inr b) \<and>
   ((\<forall>r. respond srv (sent w) (validate_request this (getItem ''auth_token'' w)) = Inr r
          \<longrightarrow> \<not> ok r) \<longrightarrow>
      fst (isLoggedIn this srv w) = Inr False \<and>
      localStorage (snd (isLoggedIn this srv w)) = (localStorage w)(''auth_token'' := None))"
proof (cases "respond srv (sent w) (validate_request this (getItem ''auth_token'' w))")
  case (Inl e)
  then show ?thesis using isLoggedIn_rejected [OF Inl] by auto
next
  case (Inr r)
  then show ?thesis using isLoggedIn_resolved [OF Inr] by auto
qed

theorem isLoggedIn_never_rejects_witness:
  "fst (isLoggedIn manager offline world_abc) = Inr False \<and>
   getItem ''auth_token'' (snd (isLoggedIn manager offline world_abc)) = None"
  using isLoggedIn_never_rejects [of manager offline world_abc]
  by (simp add: offline_def getItem_def)

subsection \<open>login\<close>

text \<open>
  Claim C1. For every user name, password and token, with \<^verbatim>\<open>rememberMe\<close> true and a
  login request that resolves with a status from 200 to 299:
  \<^item> when \<^verbatim>\<open>login\<close> completes, that is, resolves, the body of the login response has
    parsed to a token, the storage holds that token under \<^verbatim>\<open>auth_token\<close> (as the
    string the storage makes of it, which is the token itself when the token is a
    string), and the value returned is the object of the profile and the roles parsed
    from the answers to the requests \<^verbatim>\<open>/profile/username\<close> and \<^verbatim>\<open>/roles/username\<close>;
  \<^item> and \<^verbatim>\<open>login\<close> does complete so, whenever the login body parses to a token the
    storage can hold and the two requests resolve with bodies that parse.
\<close>

theorem login_remember_stores_token:
  assumes "respond srv (sent w) (login_request this username password) = Inr loginResponse"
    and "ok loginResponse"
  shows "(\<forall>result. fst (login this srv username password True w) = Inr result \<longrightarrow>
           (\<exists>token s profileResponse rolesResponse profile roles.
              json_body loginResponse = Inr token \<and>
              ToString token = Inr s \<and>
              (\<forall>t. token = JStr t \<longrightarrow> s = t) \<and>
              localStorage (snd (login this srv username password True w)) ''auth_token'' =
                Some s \<and>
              respond srv (sent w @ [login_request this username password])
                (profile_request this username) = Inr profileResponse \<and>
              respond srv (sent w @ [login_request this username password,
                  profile_request this username])
                (roles_request this username) = Inr rolesResponse \<and>
              json_body profileResponse = Inr profile \<and>
              json_body rolesResponse = Inr roles \<and>
              result = JObj [(''profile'', profile), (''roles'', roles)])) \<and>
         (\<forall>token s profileResponse rolesResponse profile roles.
            json_body loginResponse = Inr token \<and>
            ToString token = Inr s \<and>
            respond srv (sent w @ [login_request this username password])
              (profile_request this username) = Inr profileResponse \<and>
            respond srv (sent w @ [login_request this username password,
                profile_request this username])
              (roles_request this username) = Inr rolesResponse \<and>
            json_body profileResponse = Inr profile \<and>
            json_body rolesResponse = Inr roles \<longrightarrow>
            fst (login this srv username password True w) =
              Inr (JObj [(''profile'', profile), (''roles'', roles)]) \<and>
            localStorage (snd (login this srv username password True w)) ''auth_token'' =
              Some s)"
proof (intro conjI allI impI)
  fix result
  assume resolved: "fst (login this srv username password True w) = Inr result"
  show "\<exists>token s profileResponse rolesResponse profile roles.
      json_body loginResponse = Inr token \<and>
      ToString token = Inr s \<and>
      (\<forall>t. token = JStr t \<longrightarrow> s = t) \<and>
      localStorage (snd (login this srv username password True w)) ''auth_token'' = Some s \<and>
      respond srv (sent w @ [login_request this username password])
        (profile_request this username) = Inr profileResponse \<and>
      respond srv (sent w @ [login_request this username password,
          profile_request this username])
        (roles_request this username) = Inr rolesResponse \<and>
      json_body profileResponse = Inr profile \<and>
      json_body rolesResponse = Inr roles \<and>
      result = JObj [(''profile'', profile), (''roles'', roles)]"
  proof (cases "json_body loginResponse")
    case (Inl e)
    then show ?thesis
      using assms resolved by (simp add: fst_login login_try_bad_body)
  next
    case body: (Inr token)
    show ?thesis
    proof (cases "ToString token")
      case (Inl e)
      then show ?thesis
        using assms resolved body by (simp add: fst_login login_try_bad_token)
    next
      case (Inr s)
      let ?w1 = "setItem ''auth_token'' s
          (w\<lparr>sent := sent w @ [login_request this username password]\<rparr>)"
      have run: "login_try this srv username password True w =
          profile_and_roles this srv username ?w1"
        using assms body Inr by (rule login_try_remember)
      have "fst (profile_and_roles this srv username ?w1) = Inr result"
        using resolved by (simp add: fst_login run)
      from profile_and_roles_resolved [OF this]
      obtain profileResponse rolesResponse profile roles where
        "respond srv (sent ?w1) (profile_request this username) = Inr profileResponse"
        "respond srv (sent ?w1 @ [profile_request this username])
           (roles_request this username) = Inr rolesResponse"
        "json_body profileResponse = Inr profile"
        "json_body rolesResponse = Inr roles"
        "result = JObj [(''profile'', profile), (''roles'', roles)]"
        by blast
      moreover have
        "localStorage (snd (login this srv username password True w)) ''auth_token'' = Some s"
        by (simp add: storage_login run storage_profile_and_roles setItem_def)
      moreover have "\<forall>t. token = JStr t \<longrightarrow> s = t"
        using Inr by auto
      ultimately show ?thesis
        using body Inr by (simp add: setItem_def)
    qed
  qed
next
  fix token s profileResponse rolesResponse profile roles
  assume steps: "json_body loginResponse = Inr token \<and>
      ToString token = Inr s \<and>
      respond srv (sent w @ [login_request this username password])
        (profile_request this username) = Inr profileResponse \<and>
      respond srv (sent w @ [login_request this username password,
          profile_request this username])
        (roles_request this username) = Inr rolesResponse \<and>
      json_body profileResponse = Inr profile \<and>
      json_body rolesResponse = Inr roles"
  let ?w1 = "setItem ''auth_token'' s
      (w\<lparr>sent := sent w @ [login_request this username password]\<rparr>)"
  have run: "login_try this srv username password True w =
      profile_and_roles this srv username ?w1"
    using assms steps by (simp add: login_try_remember)
  have "fst (profile_and_roles this srv username ?w1) =
      Inr (JObj [(''profile'', profile), (''roles'', roles)])"
  proof (rule profile_and_roles_resolves)
    show "respond srv (sent ?w1) (profile_request this username) = Inr profileResponse"
      using steps by (simp add: setItem_def)
    show "respond srv (sent ?w1 @ [profile_request this username])
        (roles_request this username) = Inr rolesResponse"
      using steps by (simp add: setItem_def)
    show "json_body profileResponse = Inr profile"
      using steps by simp
    show "json_body rolesResponse = Inr roles"
      using steps by simp
  qed
  then show "fst (login this srv username password True w) =
      Inr (JObj [(''profile'', profile), (''roles'', roles)])"
    by (simp add: fst_login run)
  show "localStorage (snd (login this srv username password True w)) ''auth_token'' = Some s"
    by (simp add: storage_login run storage_profile_and_roles setItem_def)
qed

theorem login_remember_stores_token_witness:
  "fst (login manager server_bob ''bob'' ''pw'' True fresh_world) =
     Inr (JObj [(''profile'', JObj [(''name'', JStr ''Bob'')]),
                (''roles'', JArr [JStr ''admin''])]) \<and>
   localStorage (snd (login manager server_bob ''bob'' ''pw'' True fresh_world)) ''auth_token'' =
     Some ''tok123''"
proof -
  have answer: "respond server_bob (sent fresh_world) (login_request manager ''bob'' ''pw'') =
      Inr \<lparr>status = 200, json_body = Inr (JStr ''tok123'')\<rparr>"
    by (simp add: server_bob_def login_request_def issued_def manager_def)
  have success: "ok \<lparr>status = 200, json_body = Inr (JStr ''tok123'')\<rparr>"
    by (simp add: ok_def)
  have profile: "respond server_bob (sent fresh_world @ [login_request manager ''bob'' ''pw''])
      (profile_request manager ''bob'') =
      Inr \<lparr>status = 200, json_body = Inr (JObj [(''name'', JStr ''Bob'')])\<rparr>"
    by (simp add: server_bob_def profile_request_def issued_def manager_def)
  have roles: "respond server_bob
      (sent fresh_world @ [login_request manager ''bob'' ''pw'', profile_request manager ''bob''])
      (roles_request manager ''bob'') =
      Inr \<lparr>status = 200, json_body = Inr (JArr [JStr ''admin''])\<rparr>"
    by (simp add: server_bob_def roles_request_def issued_def manager_def)
  show ?thesis
    by (rule login_remember_stores_token [OF answer success, THEN conjunct2, rule_format,
          where token = "JStr ''tok123''"
            and profileResponse = "\<lparr>status = 200, json_body = Inr (JObj [(''name'', JStr ''Bob'')])\<rparr>"
            and rolesResponse = "\<lparr>status = 200, json_body = Inr (JArr [JStr ''admin''])\<rparr>"])
      (simp add: profile roles)
qed

text \<open>
  Claim C5. For every user name, password and server, \<^verbatim>\<open>login\<close> with \<^verbatim>\<open>rememberMe\<close>
  false leaves the storage as it was, whether it resolves or rejects.
\<close>

theorem login_no_remember_storage:
  "localStorage (snd (login this srv username password False w)) = localStorage w"
proof (cases "respond srv (sent w) (login_request this username password)")
  case (Inl e)
  then show ?thesis by (simp add: storage_login login_try_rejected)
next
  case (Inr r)
  then show ?thesis
    by (cases "ok r")
      (simp_all add: storage_login login_try_not_ok login_try_forget storage_profile_and_roles)
qed

theorem login_no_remember_storage_witness:
  "getItem ''auth_token'' (snd (login manager server_bob ''bob'' ''pw'' False world_abc)) =
     Some ''abc'' \<and>
   getItem ''auth_token'' (snd (login manager server_bob ''bob'' ''pw'' False fresh_world)) = None \<and>
   getItem ''auth_token'' (snd (login manager offline ''bob'' ''pw'' False world_abc)) =
     Some ''abc''"
  using login_no_remember_storage [of manager server_bob "''bob''" "''pw''" world_abc]
    login_no_remember_storage [of manager server_bob "''bob''" "''pw''" fresh_world]
    login_no_remember_storage [of manager offline "''bob''" "''pw''" world_abc]
  by (simp add: getItem_def world_abc_def fresh_world_def)

text \<open>
  Claim C7. For every user name and password and both values of \<^verbatim>\<open>rememberMe\<close>: when
  the login request resolves with a status outside 200 to 299, \<^verbatim>\<open>login\<close> rejects with
  the error \<^verbatim>\<open>Error("Login failed")\<close> and the storage is as it was.
\<close>

theorem login_failed_status:
  assumes "respond srv (sent w) (login_request this username password) = Inr loginResponse"
    and "\<not> ok loginResponse"
  shows "fst (login this srv username password rememberMe w) = Inl (Error ''Login failed'') \<and>
         localStorage (snd (login this srv username password rememberMe w)) = localStorage w"
  using assms by (simp add: fst_login storage_login login_try_not_ok)

theorem login_failed_status_witness:
  "fst (login manager (answer_all 403) ''bob'' ''pw'' True world_abc) =
     Inl (Error ''Login failed'') \<and>
   getItem ''auth_token'' (snd (login manager (answer_all 403) ''bob'' ''pw'' True world_abc)) =
     Some ''abc'' \<and>
   fst (login manager (answer_all 403) ''bob'' ''pw'' False world_abc) =
     Inl (Error ''Login failed'')"
  using login_failed_status [of "answer_all 403" world_abc manager "''bob''" "''pw''"
      "\<lparr>status = 403, json_body = Inr JNull\<rparr>" True]
    login_failed_status [of "answer_all 403" world_abc manager "''bob''" "''pw''"
      "\<lparr>status = 403, json_body = Inr JNull\<rparr>" False]
  by (simp add: answer_all_def ok_def getItem_def world_abc_def)

text \<open>
  Claim C9, as stated: with \<^verbatim>\<open>rememberMe\<close> true and a login request that resolves with
  a status from 200 to 299, a failure of any later step, the parsing of the login body
  among them, makes \<^verbatim>\<open>login\<close> reject with the new token in the storage. That fails
  for the parsing of the login body: the token is stored after it, so a body that does
  not parse leaves the storage without a token.
\<close>

theorem login_unparsed_body_counterexample:
  "respond server_empty_body (sent fresh_world) (login_request manager ''bob'' ''pw'') =
     Inr \<lparr>status = 200, json_body = Inl (SyntaxError ''Unexpected end of JSON input'')\<rparr> \<and>
   ok \<lparr>status = 200, json_body = Inl (SyntaxError ''Unexpected end of JSON input'')\<rparr> \<and>
   fst (login manager server_empty_body ''bob'' ''pw'' True fresh_world) =
     Inl (SyntaxError ''Unexpected end of JSON input'') \<and>
   getItem ''auth_token'' (snd (login manager server_empty_body ''bob'' ''pw'' True fresh_world)) =
     None"
  by (simp add: login_def login_try_def request_def fetch_def server_empty_body_def
      fresh_world_def ok_def getItem_def console_error_def)

text \<open>
  Claim C9, amended: with \<^verbatim>\<open>rememberMe\<close> true and a login request that resolves with a
  status from 200 to 299,
  \<^item> when the login body parses to a token that the storage can hold, the token is in
    the storage after \<^verbatim>\<open>login\<close>, and \<^verbatim>\<open>login\<close> rejects unless the profile request and
    the roles request both resolve and both bodies parse: a login that fails at one of
    these steps leaves the new token stored;
  \<^item> when the login body does not parse, \<^verbatim>\<open>login\<close> rejects with the parse error and
    the storage is as it was.
\<close>

theorem login_later_failure_keeps_token:
  assumes "respond srv (sent w) (login_request this username password) = Inr loginResponse"
    and "ok loginResponse"
  shows "(\<forall>token s. json_body loginResponse = Inr token \<and> ToString token = Inr s \<longrightarrow>
            localStorage (snd (login this srv username password True w)) ''auth_token'' = Some s \<and>
            ((\<nexists>profileResponse rolesResponse profile roles.
                respond srv (sent w @ [login_request this username password])
                  (profile_request this username) = Inr profileResponse \<and>
                respond srv (sent w @ [login_request this username password,
                    profile_request this username])
                  (roles_request this username) = Inr rolesResponse \<and>
                json_body profileResponse = Inr profile \<and>
                json_body rolesResponse = Inr roles) \<longrightarrow>
             (\<exists>e. fst (login this srv username password True w) = Inl e))) \<and>
         (\<forall>e. json_body loginResponse = Inl e \<longrightarrow>
            fst (login this srv username password True w) = Inl e \<and>
            localStorage (snd (login this srv username password True w)) = localStorage w)"
proof (intro conjI allI impI)
  fix e
  assume "json_body loginResponse = Inl e"
  then have run: "login_try this srv username password True w =
      (Inl e, w\<lparr>sent := sent w @ [login_request this username password]\<rparr>)"
    using assms by (simp add: login_try_bad_body)
  show "fst (login this srv username password True w) = Inl e"
    by (simp add: fst_login run)
  show "localStorage (snd (login this srv username password True w)) = localStorage w"
    by (simp add: storage_login run)
next
  fix token s
  assume parsed: "json_body loginResponse = Inr token \<and> ToString token = Inr s"
  let ?w1 = "setItem ''auth_token'' s
      (w\<lparr>sent := sent w @ [login_request this username password]\<rparr>)"
  have run: "login_try this srv username password True w =
      profile_and_roles this srv username ?w1"
    using assms parsed by (simp add: login_try_remember)
  show "localStorage (snd (login this srv username password True w)) ''auth_token'' = Some s"
    by (simp add: storage_login run storage_profile_and_roles setItem_def)
  assume later: "\<nexists>profileResponse rolesResponse profile roles.
      respond srv (sent w @ [login_request this username password])
        (profile_request this username) = Inr profileResponse \<and>
      respond srv (sent w @ [login_request this username password,
          profile_request this username])
        (roles_request this username) = Inr rolesResponse \<and>
      json_body profileResponse = Inr profile \<and>
      json_body rolesResponse = Inr roles"
  show "\<exists>e. fst (login this srv username password True w) = Inl e"
  proof (cases "fst (profile_and_roles this srv username ?w1)")
    case (Inl e)
    then show ?thesis by (simp add: fst_login run)
  next
    case (Inr result)
    from profile_and_roles_resolved [OF Inr] later show ?thesis
      by (simp add: setItem_def) blast
  qed
qed

theorem login_later_failure_keeps_token_witness:
  "fst (login manager server_no_roles ''bob'' ''pw'' True fresh_world) =
     Inl (TypeError ''Failed to fetch'') \<and>
   getItem ''auth_token'' (snd (login manager server_no_roles ''bob'' ''pw'' True fresh_world)) =
     Some ''tok123'' \<and>
   getItem ''auth_token'' (snd (login manager server_empty_body ''bob'' ''pw'' True world_abc)) =
     Some ''abc''"
proof -
  have a1: "respond server_no_roles (sent fresh_world) (login_request manager ''bob'' ''pw'') =
      Inr \<lparr>status = 200, json_body = Inr (JStr ''tok123'')\<rparr>"
    by (simp add: server_no_roles_def login_request_def issued_def manager_def)
  have o1: "ok \<lparr>status = 200, json_body = Inr (JStr ''tok123'')\<rparr>"
    by (simp add: ok_def)
  have a2: "respond server_empty_body (sent world_abc) (login_request manager ''bob'' ''pw'') =
      Inr \<lparr>status = 200, json_body = Inl (SyntaxError ''Unexpected end of JSON input'')\<rparr>"
    by (simp add: server_empty_body_def)
  have o2: "ok \<lparr>status = 200, json_body = Inl (SyntaxError ''Unexpected end of JSON input'')\<rparr>"
    by (simp add: ok_def)
  have run: "fst (login manager server_no_roles ''bob'' ''pw'' True fresh_world) =
      Inl (TypeError ''Failed to fetch'')"
    by (simp add: login_def login_try_def request_def fetch_def manager_def server_no_roles_def
        fresh_world_def ok_def setItem_def profile_and_roles_def Promise_all2_def)
  from login_later_failure_keeps_token [OF a1 o1] login_later_failure_keeps_token [OF a2 o2] run
  show ?thesis
    by (simp add: getItem_def world_abc_def)
qed

subsection \<open>getProfileForLoggedInUser\<close>

text \<open>
  Claim C10. Whatever the server does, \<^verbatim>\<open>getProfileForLoggedInUser\<close> leaves the storage
  as it was, whether it resolves with the profile and the roles or rejects at any step.
\<close>

theorem getProfileForLoggedInUser_storage:
  "localStorage (snd (getProfileForLoggedInUser this srv w)) = localStorage w"
proof -
  have "localStorage (snd (getProfileForLoggedInUser this srv w)) =
      localStorage (snd (getProfileForLoggedInUser_try this srv w))"
    by (simp add: getProfileForLoggedInUser_def console_error_def split: prod.splits sum.splits)
  then show ?thesis
    by (simp add: storage_getProfileForLoggedInUser_try)
qed

theorem getProfileForLoggedInUser_storage_witness:
  "fst (getProfileForLoggedInUser manager server_bob world_abc) =
     Inr (JObj [(''profile'', JObj [(''name'', JStr ''Bob'')]),
                (''roles'', JArr [JStr ''admin''])]) \<and>
   getItem ''auth_token'' (snd (getProfileForLoggedInUser manager server_bob world_abc)) =
     Some ''abc'' \<and>
   fst (getProfileForLoggedInUser manager offline world_abc) =
     Inl (TypeError ''Failed to fetch'') \<and>
   getItem ''auth_token'' (snd (getProfileForLoggedInUser manager offline world_abc)) =
     Some ''abc''"
proof -
  have r1: "fst (getProfileForLoggedInUser manager server_bob world_abc) =
      Inr (JObj [(''profile'', JObj [(''name'', JStr ''Bob'')]),
                 (''roles'', JArr [JStr ''admin''])])"
    by (simp add: getProfileForLoggedInUser_def getProfileForLoggedInUser_try_def request_def
        fetch_def manager_def server_bob_def world_abc_def getItem_def ToString_null_def
        ToString_undefined_def profile_and_roles_def Promise_all2_def)
  have r2: "fst (getProfileForLoggedInUser manager offline world_abc) =
      Inl (TypeError ''Failed to fetch'')"
    by (simp add: getProfileForLoggedInUser_def getProfileForLoggedInUser_try_def request_def
        fetch_def offline_def)
  show ?thesis
    using r1 r2 getProfileForLoggedInUser_storage [of manager server_bob world_abc]
      getProfileForLoggedInUser_storage [of manager offline world_abc]
    by (simp add: getItem_def world_abc_def)
qed

subsection \<open>logout\<close>

text \<open>
  Claim C3. When the POST to \<^verbatim>\<open>/logout\<close> resolves, with any status, \<^verbatim>\<open>logout\<close> resolves
  and the key \<^verbatim>\<open>auth_token\<close> is gone from the storage, the other keys being as they
  were. When the request rejects, \<^verbatim>\<open>logout\<close> rejects with the same error and the
  storage is as it was.
\<close>

theorem logout_clears_or_rethrows:
  "(\<forall>r. respond srv (sent w) (logout_request this (getItem ''auth_token'' w)) = Inr r \<longrightarrow>
        fst (logout this srv w) = Inr () \<and>
        getItem ''auth_token'' (snd (logout this srv w)) = None \<and>
        localStorage (snd (logout this srv w)) = (localStorage w)(''auth_token'' := None)) \<and>
   (\<forall>e. respond srv (sent w) (logout_request this (getItem ''auth_token'' w)) = Inl e \<longrightarrow>
        fst (logout this srv w) = Inl e \<and>
        localStorage (snd (logout this srv w)) = localStorage w)"
  by (simp add: logout_eq removeItem_def console_error_def getItem_def)

theorem logout_clears_or_rethrows_witness:
  "fst (logout manager (answer_all 500) world_abc) = Inr () \<and>
   getItem ''auth_token'' (snd (logout manager (answer_all 500) world_abc)) = None \<and>
   fst (logout manager offline world_abc) = Inl (TypeError ''Failed to fetch'') \<and>
   getItem ''auth_token'' (snd (logout manager offline world_abc)) = Some ''abc''"
  using logout_clears_or_rethrows [of "answer_all 500" world_abc manager]
    logout_clears_or_rethrows [of offline world_abc manager]
  by (simp add: answer_all_def offline_def getItem_def world_abc_def)

end
